theory Spec2Isabelle
  imports
    Main
    "HOL-Library.Multiset"
    "HOL-Library.Char_ord"
    "HOL-Library.List_Lexorder"
    "HOL-Library.Product_Lexorder"
begin

section \<open>The data-preparation pipeline of the COVID notebook\<close>

text \<open>
  The only computation of the notebook is the cell that builds \<open>daily_df\<close>:
  \<^verbatim>\<open>
  daily_df = (
      pd.read_csv(DATA_URL, parse_dates=['date'])
          .sort_values(['state', 'date'])
          .rename(columns={'cases': 'cases_total', 'deaths': 'deaths_total'})
          .assign(
              cases_new = lambda df: df.groupby('state')['cases_total'].diff().clip(lower=0),
              deaths_new = lambda df: df.groupby('state')['deaths_total'].diff().clip(lower=0)
          )
          .query("'2020-01-01' <= date <= '2020-12-31'")
          .reset_index(drop=True)
  )
  \<close>
  A data frame is modelled as the list of its rows, in row order; a row is a record of
  its columns. The columns that the pipeline reads are \<open>state\<close>, \<open>date\<close>,
  \<open>cases\<close> and \<open>deaths\<close>; any further column of the file is carried along
  untouched by the pipeline and is left out of the model. A parsed date is the triple (year, month, day), compared
  lexicographically, which is chronological order; state names are compared as Python
  compares strings, character by character.

  The counts are integers. \<open>diff\<close> yields a float column in which the first row of
  every group is NaN; a cell of the two new columns is therefore an \<open>int option\<close>,
  with \<open>None\<close> for NaN. The model subtracts integers exactly; the float column of the
  code is exact for counts from 0 to \<open>2 ^ 53\<close> (\<open>float64_exact\<close> below), and the
  property that states the exact value of sums of differences for arbitrary counts (C5)
  has this bound as a hypothesis. The other properties hold of the float column as well:
  they are about concrete small counts, about the sign of a difference, which rounding
  keeps, or about which cells and rows a result depends on.
\<close>

subsection \<open>Rows\<close>

type_synonym date = "nat \<times> nat \<times> nat"

record key_cols =
  state :: string
  date :: date

text \<open>A row of the file as \<open>read_csv\<close> returns it.\<close>

record observation = key_cols +
  cases :: int
  deaths :: int

text \<open>A row after \<open>rename\<close>.\<close>

record totals = key_cols +
  cases_total :: int
  deaths_total :: int

text \<open>A row after \<open>assign\<close>: the two new columns stand beside the old ones.\<close>

record daily = totals +
  cases_new :: "int option"
  deaths_new :: "int option"

subsection \<open>The steps of the pipeline\<close>

text \<open>
  \<open>sort_values(['state', 'date'])\<close>: a sort on several columns is a stable
  lexicographic sort (rows with equal keys keep their order); \<open>sort_key\<close> is a
  stable insertion sort.
\<close>

definition sort_values :: "observation list \<Rightarrow> observation list" where
  "sort_values df = sort_key (\<lambda>r. (state r, date r)) df"

text \<open>\<open>rename(columns={'cases': 'cases_total', 'deaths': 'deaths_total'})\<close>.\<close>

definition rename_columns :: "observation list \<Rightarrow> totals list" where
  "rename_columns df =
     map (\<lambda>r. \<lparr>state = state r, date = date r,
               cases_total = cases r, deaths_total = deaths r\<rparr>) df"

text \<open>
  \<open>df.groupby(key)[col].diff()\<close>: every row gets the value of \<open>col\<close> minus the value
  of \<open>col\<close> in the previous row of the same group, where the rows of a group are taken
  in frame order; the first row of a group has no previous row and gets NaN. The map
  \<open>prev\<close> holds, for each group seen so far, the value of its latest row. The
  difference is the integer difference, which is what the float column holds for counts
  from 0 to \<open>2 ^ 53\<close>.
\<close>

fun group_diff :: "('k \<rightharpoonup> int) \<Rightarrow> ('r \<Rightarrow> 'k) \<Rightarrow> ('r \<Rightarrow> int) \<Rightarrow> 'r list \<Rightarrow> int option list" where
  "group_diff prev key col [] = []"
| "group_diff prev key col (r # rs) =
     (case prev (key r) of None \<Rightarrow> None | Some p \<Rightarrow> Some (col r - p))
       # group_diff (prev(key r \<mapsto> col r)) key col rs"

definition groupby_diff :: "('r \<Rightarrow> 'k) \<Rightarrow> ('r \<Rightarrow> int) \<Rightarrow> 'r list \<Rightarrow> int option list" where
  "groupby_diff key col df = group_diff Map.empty key col df"

text \<open>\<open>clip(lower=lo)\<close>: a value below \<open>lo\<close> becomes \<open>lo\<close>; NaN stays NaN.\<close>

definition clip_lower :: "int \<Rightarrow> int option list \<Rightarrow> int option list" where
  "clip_lower lo column = map (map_option (max lo)) column"

text \<open>
  \<open>assign(cases_new = ..., deaths_new = ...)\<close>: both columns are computed from the
  frame that \<open>assign\<close> receives and attached to it row by row.
\<close>

definition assign_new :: "totals list \<Rightarrow> daily list" where
  "assign_new df =
     map (\<lambda>(r, cn, dn).
            \<lparr>state = state r, date = date r,
             cases_total = cases_total r, deaths_total = deaths_total r,
             cases_new = cn, deaths_new = dn\<rparr>)
         (zip df (zip (clip_lower 0 (groupby_diff state cases_total df))
                      (clip_lower 0 (groupby_diff state deaths_total df))))"

text \<open>\<open>query("'2020-01-01' <= date <= '2020-12-31'")\<close>.\<close>

definition in_2020 :: "date \<Rightarrow> bool" where
  "in_2020 d \<longleftrightarrow> (2020, 1, 1) \<le> d \<and> d \<le> (2020, 12, 31)"

definition query :: "daily list \<Rightarrow> daily list" where
  "query df = filter (\<lambda>r. in_2020 (date r)) df"

text \<open>
  The whole cell. \<open>reset_index(drop=True)\<close> renumbers the rows from 0 and drops the old
  index; a list is addressed by position, so nothing is left to do for it.
\<close>

definition daily_df :: "observation list \<Rightarrow> daily list" where
  "daily_df csv = query (assign_new (rename_columns (sort_values csv)))"

subsection \<open>Notions used to state the properties\<close>

text \<open>The rows of one state, in frame order: the group that \<open>groupby('state')\<close> forms.\<close>

definition state_group :: "string \<Rightarrow> ('a key_cols_scheme) list \<Rightarrow> ('a key_cols_scheme) list" where
  "state_group e df = filter (\<lambda>r. state r = e) df"

text \<open>
  Adding up a column of new counts: a missing cell contributes nothing, as in the \<open>sum\<close>
  aggregation of a column with NaN cells.
\<close>

definition sum_present :: "int option list \<Rightarrow> int" where
  "sum_present column = sum_list (map (\<lambda>v. case v of None \<Rightarrow> 0 | Some n \<Rightarrow> n) column)"

text \<open>
  The counts on which the float column of \<open>diff\<close> is exact. Every integer from 0 to
  \<open>2 ^ 53\<close> is a float64 value, and so is the difference of two of them; on such counts
  the subtraction that \<open>diff\<close> performs in float64 is the integer subtraction of
  \<open>group_diff\<close>. Beyond \<open>2 ^ 53\<close> a float64 cell rounds (\<open>2 ^ 53 + 1\<close> is stored as
  \<open>2 ^ 53\<close>) and a difference computed by the code can differ from the integer
  difference.
\<close>

definition float64_exact :: "int \<Rightarrow> bool" where
  "float64_exact c \<longleftrightarrow> 0 \<le> c \<and> c \<le> 2 ^ 53"

subsection \<open>Exchanging the two metrics\<close>

text \<open>
  The file with its \<open>cases\<close> and \<open>deaths\<close> columns exchanged, and the same for the
  frames of the pipeline. These serve to state that both metrics get the same treatment.
\<close>

definition swap_metrics :: "observation \<Rightarrow> observation" where
  "swap_metrics r = \<lparr>state = state r, date = date r, cases = deaths r, deaths = cases r\<rparr>"

definition swap_totals :: "totals \<Rightarrow> totals" where
  "swap_totals r =
     \<lparr>state = state r, date = date r, cases_total = deaths_total r, deaths_total = cases_total r\<rparr>"

definition swap_daily :: "daily \<Rightarrow> daily" where
  "swap_daily d =
     \<lparr>state = state d, date = date d,
      cases_total = deaths_total d, deaths_total = cases_total d,
      cases_new = deaths_new d, deaths_new = cases_new d\<rparr>"

subsection \<open>The assignment as one pass over the rows\<close>

text \<open>
  For the proofs, the two differenced and clipped columns and the attachment of
  \<open>assign_new\<close> are fused into one recursion over the frame, with one map of previous
  values per column. Lemma \<open>assign_new_rows\<close> below shows that this is \<open>assign_new\<close>.
\<close>

definition new_row :: "totals \<Rightarrow> int option \<Rightarrow> int option \<Rightarrow> daily" where
  "new_row r cn dn =
     \<lparr>state = state r, date = date r,
      cases_total = cases_total r, deaths_total = deaths_total r,
      cases_new = cn, deaths_new = dn\<rparr>"

definition since :: "int option \<Rightarrow> int \<Rightarrow> int option" where
  "since p v = map_option (max 0) (case p of None \<Rightarrow> None | Some q \<Rightarrow> Some (v - q))"

fun rows_from :: "(string \<rightharpoonup> int) \<Rightarrow> (string \<rightharpoonup> int) \<Rightarrow> totals list \<Rightarrow> daily list" where
  "rows_from pc pd [] = []"
| "rows_from pc pd (r # rs) =
     new_row r (since (pc (state r)) (cases_total r)) (since (pd (state r)) (deaths_total r))
       # rows_from (pc(state r \<mapsto> cases_total r)) (pd(state r \<mapsto> deaths_total r)) rs"

section \<open>Lemmas about the pipeline\<close>

subsection \<open>The assignment, row by row\<close>

lemma length_group_diff: "length (group_diff prev key col df) = length df"
  by (induction df arbitrary: prev) simp_all

lemma assign_rows_from:
  "map (\<lambda>(r, cn, dn). new_row r cn dn)
     (zip df (zip (clip_lower 0 (group_diff pc state cases_total df))
                  (clip_lower 0 (group_diff pd state deaths_total df))))
   = rows_from pc pd df"
  by (induction df arbitrary: pc pd) (simp_all add: clip_lower_def since_def)

lemma assign_new_rows: "assign_new df = rows_from Map.empty Map.empty df"
  using assign_rows_from [of df Map.empty Map.empty]
  by (simp add: assign_new_def groupby_diff_def new_row_def [abs_def])

lemma length_rows_from: "length (rows_from pc pd df) = length df"
  by (induction df arbitrary: pc pd) simp_all

lemma totals_rows_from:
  "map (\<lambda>d. \<lparr>state = state d, date = date d, cases_total = cases_total d,
              deaths_total = deaths_total d\<rparr>) (rows_from pc pd df) = df"
  by (induction df arbitrary: pc pd) (simp_all add: new_row_def)

lemma since_nonneg: "since p v = Some n \<Longrightarrow> 0 \<le> n"
  by (auto simp: since_def split: option.splits)

lemma rows_from_nonneg:
  "d \<in> set (rows_from pc pd df) \<Longrightarrow>
     (\<forall>n. cases_new d = Some n \<longrightarrow> 0 \<le> n) \<and> (\<forall>n. deaths_new d = Some n \<longrightarrow> 0 \<le> n)"
  by (induction df arbitrary: pc pd) (auto simp: new_row_def dest: since_nonneg)

lemma map_date_rows_from: "map date (rows_from pc pd df) = map date df"
  by (induction df arbitrary: pc pd) (simp_all add: new_row_def)

lemma map_key_rows_from:
  "map (\<lambda>r. (state r, date r)) (rows_from pc pd df) = map (\<lambda>r. (state r, date r)) df"
  by (induction df arbitrary: pc pd) (simp_all add: new_row_def)

lemma take_rows_from: "take k (rows_from pc pd s) = rows_from pc pd (take k s)"
  by (induction s arbitrary: k pc pd) (simp_all add: take_Cons split: nat.split)

lemma rows_from_cong:
  "(\<And>r. r \<in> set df \<Longrightarrow> pc (state r) = pc' (state r) \<and> pd (state r) = pd' (state r)) \<Longrightarrow>
     rows_from pc pd df = rows_from pc' pd' df"
proof (induction df arbitrary: pc pd pc' pd')
  case Nil
  show ?case by simp
next
  case (Cons r rs)
  have "rows_from (pc(state r \<mapsto> cases_total r)) (pd(state r \<mapsto> deaths_total r)) rs
      = rows_from (pc'(state r \<mapsto> cases_total r)) (pd'(state r \<mapsto> deaths_total r)) rs"
    by (rule Cons.IH) (simp add: Cons.prems)
  moreover have "pc (state r) = pc' (state r)" "pd (state r) = pd' (state r)"
    using Cons.prems [of r] by simp_all
  ultimately show ?case by simp
qed

lemma adjacent_rows_from:
  "state a = state b \<Longrightarrow>
     new_row b (Some (max 0 (cases_total b - cases_total a)))
               (Some (max 0 (deaths_total b - deaths_total a)))
       \<in> set (rows_from pc pd (pre @ a # b # post))"
  by (induction pre arbitrary: pc pd) (simp_all add: since_def)

subsection \<open>The output against the input\<close>

lemma observation_eta:
  "\<lparr>state = state r, date = date r, cases = cases r, deaths = deaths r\<rparr> = (r :: observation)"
  by (cases r) simp

lemma originals_daily_df:
  "map (\<lambda>d. \<lparr>state = state d, date = date d, cases = cases_total d, deaths = deaths_total d\<rparr>)
       (daily_df csv)
   = filter (\<lambda>r. in_2020 (date r)) (sort_values csv)"
proof -
  let ?df = "rename_columns (sort_values csv)"
  let ?orig = "\<lambda>r. \<lparr>state = state r, date = date r, cases = cases_total r, deaths = deaths_total r\<rparr>"
  have "map ?orig (filter (\<lambda>r. in_2020 (date r)) (rows_from pc pd df))
        = filter (\<lambda>r. in_2020 (date r)) (map ?orig df)" for pc pd df
    by (induction df arbitrary: pc pd) (simp_all add: new_row_def)
  moreover have "map ?orig ?df = sort_values csv"
    by (simp add: rename_columns_def o_def observation_eta)
  ultimately show ?thesis
    by (simp add: daily_df_def query_def assign_new_rows)
qed

subsection \<open>One state at a time\<close>

text \<open>
  Taking the rows of one state commutes with every step of the pipeline: the rows that a
  state gets are those it would get if the file held no other state.
\<close>

lemma group_rows_from: "state_group e (rows_from pc pd df) = rows_from pc pd (state_group e df)"
proof (induction df arbitrary: pc pd)
  case Nil
  show ?case by (simp add: state_group_def)
next
  case (Cons r rs)
  define pc1 where "pc1 = pc(state r \<mapsto> cases_total r)"
  define pd1 where "pd1 = pd(state r \<mapsto> deaths_total r)"
  define d where "d = new_row r (since (pc (state r)) (cases_total r))
                                (since (pd (state r)) (deaths_total r))"
  have unfold: "rows_from pc pd (r # rs) = d # rows_from pc1 pd1 rs"
    by (simp add: pc1_def pd1_def d_def)
  have state_d: "state d = state r"
    by (simp add: d_def new_row_def)
  have IH: "state_group e (rows_from pc1 pd1 rs) = rows_from pc1 pd1 (state_group e rs)"
    by (rule Cons.IH)
  show ?case
  proof (cases "state r = e")
    case True
    have "state_group e (rows_from pc pd (r # rs)) = d # state_group e (rows_from pc1 pd1 rs)"
      unfolding unfold using True state_d by (simp add: state_group_def)
    also have "\<dots> = d # rows_from pc1 pd1 (state_group e rs)"
      by (simp only: IH)
    also have "\<dots> = rows_from pc pd (r # state_group e rs)"
      by (simp add: pc1_def pd1_def d_def)
    also have "r # state_group e rs = state_group e (r # rs)"
      using True by (simp add: state_group_def)
    finally show ?thesis .
  next
    case False
    have "state_group e (rows_from pc pd (r # rs)) = state_group e (rows_from pc1 pd1 rs)"
      unfolding unfold using False state_d by (simp add: state_group_def)
    also have "\<dots> = rows_from pc1 pd1 (state_group e rs)"
      by (simp only: IH)
    also have "\<dots> = rows_from pc pd (state_group e rs)"
      by (rule rows_from_cong) (use False in \<open>auto simp: state_group_def pc1_def pd1_def\<close>)
    also have "state_group e rs = state_group e (r # rs)"
      using False by (simp add: state_group_def)
    finally show ?thesis .
  qed
qed

lemma group_sort_values: "state_group e (sort_values csv) = sort_values (state_group e csv)"
  by (simp add: state_group_def sort_values_def filter_sort)

lemma group_rename_columns: "state_group e (rename_columns df) = rename_columns (state_group e df)"
  by (simp add: state_group_def rename_columns_def filter_map o_def)

lemma group_query: "state_group e (query df) = query (state_group e df)"
  by (auto simp: state_group_def query_def intro: filter_cong)

lemma group_daily_df: "state_group e (daily_df csv) = daily_df (state_group e csv)"
  by (simp add: daily_df_def group_query assign_new_rows group_rows_from
      group_rename_columns group_sort_values)

lemma group_daily_df_series:
  "state_group e (daily_df csv)
     = query (rows_from Map.empty Map.empty (rename_columns (state_group e (sort_values csv))))"
  by (simp add: group_daily_df group_sort_values) (simp add: daily_df_def assign_new_rows)

lemma sort_values_perm:
  assumes "distinct (map (\<lambda>r. (state r, date r)) xs)" and "mset ys = mset xs"
  shows "sort_values ys = sort_values xs"
  unfolding sort_values_def
proof (rule sort_key_inj_key_eq)
  show "mset ys = mset (sort_key (\<lambda>r. (state r, date r)) xs)"
    using assms(2) by simp
  have "set ys = set xs"
    using assms(2) by (rule mset_eq_setD)
  then show "inj_on (\<lambda>r. (state r, date r)) (set ys)"
    using assms(1) by (simp add: distinct_map)
  show "sorted (map (\<lambda>r. (state r, date r)) (sort_key (\<lambda>r. (state r, date r)) xs))"
    by (rule sorted_sort_key)
qed

lemma sorted_dates_of_group:
  assumes "sorted (map (\<lambda>r. (state r, date r)) s)" and "\<And>r. r \<in> set s \<Longrightarrow> state r = e"
  shows "sorted (map date s)"
  using assms by (induction s) auto

lemma query_prefix:
  assumes "sorted (map date t)" and "\<And>r. r \<in> set t \<Longrightarrow> (2020, 1, 1) \<le> date r"
  shows "\<exists>n. query (rows_from pc pd t) = take n (rows_from pc pd t)"
  using assms
proof (induction t arbitrary: pc pd)
  case Nil
  show ?case by (simp add: query_def)
next
  case (Cons r rs)
  define pc1 where "pc1 = pc(state r \<mapsto> cases_total r)"
  define pd1 where "pd1 = pd(state r \<mapsto> deaths_total r)"
  define d where "d = new_row r (since (pc (state r)) (cases_total r))
                                (since (pd (state r)) (deaths_total r))"
  have unfold: "rows_from pc pd (r # rs) = d # rows_from pc1 pd1 rs"
    by (simp add: pc1_def pd1_def d_def)
  have date_d: "date d = date r"
    by (simp add: d_def new_row_def)
  show ?case
  proof (cases "date r \<le> (2020, 12, 31)")
    case True
    obtain n where "query (rows_from pc1 pd1 rs) = take n (rows_from pc1 pd1 rs)"
      using Cons.IH [of pc1 pd1] Cons.prems by auto
    then have "query (rows_from pc pd (r # rs)) = take (Suc n) (rows_from pc pd (r # rs))"
      unfolding unfold using True Cons.prems(2) [of r] date_d
      by (simp add: query_def in_2020_def)
    then show ?thesis ..
  next
    case False
    have "\<not> in_2020 (date x)" if "x \<in> set (rows_from pc1 pd1 rs)" for x
    proof -
      have "date x \<in> set (map date (rows_from pc1 pd1 rs))"
        using that by simp
      then have "date x \<in> set (map date rs)"
        by (simp only: map_date_rows_from)
      then have "date r \<le> date x"
        using Cons.prems(1) by auto
      with False show ?thesis
        by (auto simp: in_2020_def)
    qed
    then have "query (rows_from pc1 pd1 rs) = []"
      by (simp add: query_def)
    then have "query (rows_from pc pd (r # rs)) = take 0 (rows_from pc pd (r # rs))"
      unfolding unfold using False date_d by (simp add: query_def in_2020_def)
    then show ?thesis ..
  qed
qed

lemma sum_rows_from:
  assumes "\<And>r. r \<in> set s \<Longrightarrow> state r = e" and "sorted (map cases_total s)"
    and "pc e = Some p" and "\<And>r. r \<in> set s \<Longrightarrow> p \<le> cases_total r"
  shows "sum_present (map cases_new (rows_from pc pd s))
         = (if s = [] then 0 else cases_total (last s) - p)"
  using assms
proof (induction s arbitrary: pc pd p)
  case Nil
  show ?case by (simp add: sum_present_def)
next
  case (Cons r rs)
  have e: "state r = e" and le: "p \<le> cases_total r"
    using Cons.prems(1,4) by simp_all
  have tail: "sum_present (map cases_new
                (rows_from (pc(e \<mapsto> cases_total r)) (pd(e \<mapsto> deaths_total r)) rs))
              = (if rs = [] then 0 else cases_total (last rs) - cases_total r)"
  proof (rule Cons.IH)
    show "sorted (map cases_total rs)"
      using Cons.prems(2) by simp
    show "(pc(e \<mapsto> cases_total r)) e = Some (cases_total r)"
      by simp
    show "state r' = e" if "r' \<in> set rs" for r'
      using that Cons.prems(1) by simp
    show "cases_total r \<le> cases_total r'" if "r' \<in> set rs" for r'
      using that Cons.prems(2) by simp
  qed
  have "sum_present (map cases_new (rows_from pc pd (r # rs)))
        = (cases_total r - p)
          + sum_present (map cases_new
              (rows_from (pc(e \<mapsto> cases_total r)) (pd(e \<mapsto> deaths_total r)) rs))"
    using e le Cons.prems(3) by (simp add: sum_present_def new_row_def since_def)
  then show ?case
    by (simp add: tail)
qed

subsection \<open>Columns that a result does not read\<close>

text \<open>
  Each new column is the same function of its own cumulative column (and of the
  grouping by state), as \<open>assign\<close> is written.
\<close>

lemma assign_new_columns:
  "map cases_new (assign_new df) = clip_lower 0 (groupby_diff state cases_total df)"
  "map deaths_new (assign_new df) = clip_lower 0 (groupby_diff state deaths_total df)"
proof -
  let ?cn = "clip_lower 0 (groupby_diff state cases_total df)"
  let ?dn = "clip_lower 0 (groupby_diff state deaths_total df)"
  have len: "length ?cn = length df" "length ?dn = length df"
    by (simp_all add: clip_lower_def groupby_diff_def length_group_diff)
  have "map cases_new (assign_new df) = map (\<lambda>p. fst (snd p)) (zip df (zip ?cn ?dn))"
    by (simp add: assign_new_def case_prod_beta)
  also have "\<dots> = map fst (map snd (zip df (zip ?cn ?dn)))"
    by simp
  also have "\<dots> = ?cn"
    using len by simp
  finally show "map cases_new (assign_new df) = ?cn" .
  have "map deaths_new (assign_new df) = map (\<lambda>p. snd (snd p)) (zip df (zip ?cn ?dn))"
    by (simp add: assign_new_def case_prod_beta)
  also have "\<dots> = map snd (map snd (zip df (zip ?cn ?dn)))"
    by simp
  also have "\<dots> = ?dn"
    using len by simp
  finally show "map deaths_new (assign_new df) = ?dn" .
qed

lemma insort_key_map:
  "insort_key f (g x) (map g xs) = map g (insort_key (\<lambda>y. f (g y)) x xs)"
  by (induction xs) simp_all

lemma sort_key_map: "sort_key f (map g xs) = map g (sort_key (\<lambda>y. f (g y)) xs)"
  by (induction xs) (simp_all add: insort_key_map)

lemma map_pair_zip: "map (\<lambda>x. (f x, g x)) xs = zip (map f xs) (map g xs)"
  by (induction xs) simp_all

lemma map_pair_eq:
  assumes "map f xs = map f ys" and "map g xs = map g ys"
  shows "map (\<lambda>x. (f x, g x)) xs = map (\<lambda>x. (f x, g x)) ys"
  unfolding map_pair_zip by (simp only: assms)

lemma sort_values_same_keys:
  assumes "map (\<lambda>r. ((state r, date r), v r)) csv' = map (\<lambda>r. ((state r, date r), v r)) csv"
  shows "map (\<lambda>r. ((state r, date r), v r)) (sort_values csv')
         = map (\<lambda>r. ((state r, date r), v r)) (sort_values csv)"
proof -
  have "sort_key fst (map (\<lambda>r. ((state r, date r), v r)) csv')
      = sort_key fst (map (\<lambda>r. ((state r, date r), v r)) csv)"
    by (simp only: assms)
  then show ?thesis
    by (simp add: sort_key_map sort_values_def)
qed

lemma rows_from_cases_only:
  "map (\<lambda>r. ((state r, date r), cases_total r)) df' = map (\<lambda>r. ((state r, date r), cases_total r)) df \<Longrightarrow>
     map (\<lambda>d. (date d, cases_new d)) (rows_from pc pd' df')
       = map (\<lambda>d. (date d, cases_new d)) (rows_from pc pd df)"
proof (induction df arbitrary: df' pc pd pd')
  case Nil
  then show ?case by simp
next
  case (Cons r rs)
  then obtain r' rs' where df': "df' = r' # rs'"
    by (cases df') auto
  from Cons.prems have eq: "state r' = state r" "date r' = date r" "cases_total r' = cases_total r"
    and tl: "map (\<lambda>r. ((state r, date r), cases_total r)) rs'
             = map (\<lambda>r. ((state r, date r), cases_total r)) rs"
    by (simp_all add: df')
  have "map (\<lambda>d. (date d, cases_new d))
          (rows_from (pc(state r \<mapsto> cases_total r)) (pd'(state r \<mapsto> deaths_total r')) rs')
      = map (\<lambda>d. (date d, cases_new d))
          (rows_from (pc(state r \<mapsto> cases_total r)) (pd(state r \<mapsto> deaths_total r)) rs)"
    using tl by (rule Cons.IH)
  then show ?case
    by (simp add: df' eq new_row_def)
qed

lemma rows_from_deaths_only:
  "map (\<lambda>r. ((state r, date r), deaths_total r)) df' = map (\<lambda>r. ((state r, date r), deaths_total r)) df \<Longrightarrow>
     map (\<lambda>d. (date d, deaths_new d)) (rows_from pc' pd df')
       = map (\<lambda>d. (date d, deaths_new d)) (rows_from pc pd df)"
proof (induction df arbitrary: df' pc pc' pd)
  case Nil
  then show ?case by simp
next
  case (Cons r rs)
  then obtain r' rs' where df': "df' = r' # rs'"
    by (cases df') auto
  from Cons.prems have eq: "state r' = state r" "date r' = date r" "deaths_total r' = deaths_total r"
    and tl: "map (\<lambda>r. ((state r, date r), deaths_total r)) rs'
             = map (\<lambda>r. ((state r, date r), deaths_total r)) rs"
    by (simp_all add: df')
  have "map (\<lambda>d. (date d, deaths_new d))
          (rows_from (pc'(state r \<mapsto> cases_total r')) (pd(state r \<mapsto> deaths_total r)) rs')
      = map (\<lambda>d. (date d, deaths_new d))
          (rows_from (pc(state r \<mapsto> cases_total r)) (pd(state r \<mapsto> deaths_total r)) rs)"
    using tl by (rule Cons.IH)
  then show ?case
    by (simp add: df' eq new_row_def)
qed

lemma query_column:
  "map v (query df) = map snd (filter (\<lambda>p. in_2020 (fst p)) (map (\<lambda>d. (date d, v d)) df))"
  by (induction df) (simp_all add: query_def)

lemma cases_new_only:
  assumes "map (\<lambda>r. (state r, date r)) csv' = map (\<lambda>r. (state r, date r)) csv"
    and "map cases csv' = map cases csv"
  shows "map cases_new (daily_df csv') = map cases_new (daily_df csv)"
proof -
  have "map (\<lambda>r. ((state r, date r), cases r)) csv' = map (\<lambda>r. ((state r, date r), cases r)) csv"
    using assms by (rule map_pair_eq)
  then have "map (\<lambda>r. ((state r, date r), cases r)) (sort_values csv')
           = map (\<lambda>r. ((state r, date r), cases r)) (sort_values csv)"
    by (rule sort_values_same_keys)
  then have "map (\<lambda>r. ((state r, date r), cases_total r)) (rename_columns (sort_values csv'))
           = map (\<lambda>r. ((state r, date r), cases_total r)) (rename_columns (sort_values csv))"
    by (simp add: rename_columns_def o_def)
  then have "map (\<lambda>d. (date d, cases_new d))
               (rows_from Map.empty Map.empty (rename_columns (sort_values csv')))
           = map (\<lambda>d. (date d, cases_new d))
               (rows_from Map.empty Map.empty (rename_columns (sort_values csv)))"
    by (rule rows_from_cases_only)
  then show ?thesis
    by (simp only: daily_df_def assign_new_rows query_column)
qed

lemma deaths_new_only:
  assumes "map (\<lambda>r. (state r, date r)) csv' = map (\<lambda>r. (state r, date r)) csv"
    and "map deaths csv' = map deaths csv"
  shows "map deaths_new (daily_df csv') = map deaths_new (daily_df csv)"
proof -
  have "map (\<lambda>r. ((state r, date r), deaths r)) csv' = map (\<lambda>r. ((state r, date r), deaths r)) csv"
    using assms by (rule map_pair_eq)
  then have "map (\<lambda>r. ((state r, date r), deaths r)) (sort_values csv')
           = map (\<lambda>r. ((state r, date r), deaths r)) (sort_values csv)"
    by (rule sort_values_same_keys)
  then have "map (\<lambda>r. ((state r, date r), deaths_total r)) (rename_columns (sort_values csv'))
           = map (\<lambda>r. ((state r, date r), deaths_total r)) (rename_columns (sort_values csv))"
    by (simp add: rename_columns_def o_def)
  then have "map (\<lambda>d. (date d, deaths_new d))
               (rows_from Map.empty Map.empty (rename_columns (sort_values csv')))
           = map (\<lambda>d. (date d, deaths_new d))
               (rows_from Map.empty Map.empty (rename_columns (sort_values csv)))"
    by (rule rows_from_deaths_only)
  then show ?thesis
    by (simp only: daily_df_def assign_new_rows query_column)
qed

subsection \<open>Both metrics alike\<close>

lemma sort_values_swap: "sort_values (map swap_metrics csv) = map swap_metrics (sort_values csv)"
  by (simp add: sort_values_def sort_key_map swap_metrics_def)

lemma rename_columns_swap:
  "rename_columns (map swap_metrics df) = map swap_totals (rename_columns df)"
  by (simp add: rename_columns_def swap_metrics_def swap_totals_def)

lemma rows_from_swap:
  "rows_from pc pd (map swap_totals df) = map swap_daily (rows_from pd pc df)"
  by (induction df arbitrary: pc pd) (simp_all add: swap_totals_def swap_daily_def new_row_def)

lemma query_swap: "query (map swap_daily df) = map swap_daily (query df)"
  by (induction df) (simp_all add: query_def swap_daily_def)

lemma daily_df_swap: "daily_df (map swap_metrics csv) = map swap_daily (daily_df csv)"
  by (simp add: daily_df_def assign_new_rows sort_values_swap rename_columns_swap
      rows_from_swap query_swap)

lemma state_group_map:
  "(\<And>x. state (f x) = state x) \<Longrightarrow> state_group e (map f xs) = map f (state_group e xs)"
  by (induction xs) (simp_all add: state_group_def)

lemma length_group_daily_df:
  "length (state_group e (daily_df csv)) \<le> length (state_group e (sort_values csv))"
proof -
  have "length (state_group e (daily_df csv))
        \<le> length (rows_from Map.empty Map.empty (rename_columns (state_group e (sort_values csv))))"
    unfolding group_daily_df_series query_def by (rule length_filter_le)
  then show ?thesis
    by (simp add: length_rows_from rename_columns_def)
qed

subsection \<open>Sums of new counts\<close>

lemma prefix_sum_cases:
  assumes early: "\<forall>r \<in> set (state_group e csv). (2020, 1, 1) \<le> date r"
    and mono: "sorted (map cases (state_group e (sort_values csv)))"
    and k: "0 < k" "k \<le> length (state_group e (daily_df csv))"
  shows "sum_present (map cases_new (take k (state_group e (daily_df csv))))
         = cases (state_group e (sort_values csv) ! (k - 1))
           - cases (state_group e (sort_values csv) ! 0)"
proof -
  define s where "s = state_group e (sort_values csv)"
  define t where "t = rename_columns s"
  define out where "out = state_group e (daily_df csv)"
  have out: "out = query (rows_from Map.empty Map.empty t)"
    by (simp add: out_def t_def s_def group_daily_df_series)
  have len_t: "length t = length s"
    by (simp add: t_def rename_columns_def)
  have cases_t: "cases_total (t ! i) = cases (s ! i)" if "i < length s" for i
    using that by (simp add: t_def rename_columns_def)
  have state_s: "state r = e" if "r \<in> set s" for r
    using that by (simp add: s_def state_group_def)
  have state_t: "state r = e" if "r \<in> set t" for r
    using that state_s by (auto simp: t_def rename_columns_def)
  have set_s: "set s = set (state_group e csv)"
    by (simp add: s_def state_group_def sort_values_def)
  have "sorted (map (\<lambda>r. (state r, date r)) s)"
    unfolding s_def state_group_def sort_values_def
    by (rule sorted_filter) (rule sorted_sort_key)
  then have "sorted (map date s)"
    using state_s by (rule sorted_dates_of_group)
  then have sorted_t: "sorted (map date t)"
    by (simp add: t_def rename_columns_def o_def)
  have early_t: "(2020, 1, 1) \<le> date r" if "r \<in> set t" for r
    using that early set_s by (auto simp: t_def rename_columns_def)
  obtain n where n: "out = take n (rows_from Map.empty Map.empty t)"
    unfolding out using query_prefix [OF sorted_t early_t] by blast
  have "length out \<le> length t"
    by (simp add: n length_rows_from)
  with k have k_t: "k \<le> length t"
    by (simp add: out_def)
  have "k \<le> n"
    using k(2) by (simp add: out_def [symmetric] n length_rows_from)
  then have take_out: "take k out = rows_from Map.empty Map.empty (take k t)"
    by (simp add: n take_rows_from min_def)
  have t_ne: "t \<noteq> []"
    using k(1) k_t by auto
  from k(1) k_t obtain r rs where rrs: "take k t = r # rs"
    by (cases "take k t") auto
  have in_t: "set (r # rs) \<subseteq> set t"
    unfolding rrs [symmetric] by (rule set_take_subset)
  have r_e: "state r = e"
    using in_t state_t by auto
  have "sorted (map cases s)"
    using mono by (simp add: s_def)
  then have "sorted (map cases_total t)"
    by (simp add: t_def rename_columns_def o_def)
  then have "sorted (take k (map cases_total t))"
    by (rule sorted_wrt_take)
  then have sorted_rrs: "sorted (map cases_total (r # rs))"
    by (simp add: take_map rrs)
  have tail: "sum_present (map cases_new
                (rows_from [e \<mapsto> cases_total r] [e \<mapsto> deaths_total r] rs))
              = (if rs = [] then 0 else cases_total (last rs) - cases_total r)"
  proof (rule sum_rows_from)
    show "state r' = e" if "r' \<in> set rs" for r'
      using that in_t state_t by auto
    show "sorted (map cases_total rs)"
      using sorted_rrs by simp
    show "[e \<mapsto> cases_total r] e = Some (cases_total r)"
      by simp
    show "cases_total r \<le> cases_total r'" if "r' \<in> set rs" for r'
      using that sorted_rrs by simp
  qed
  have "sum_present (map cases_new (take k out))
        = cases_total (last (r # rs)) - cases_total r"
    using r_e tail by (simp add: take_out rrs sum_present_def new_row_def since_def)
  also have "last (r # rs) = t ! (k - 1)"
    using k(1) k_t t_ne last_conv_nth [of "take k t"] by (simp add: rrs [symmetric])
  also have "r = t ! 0"
  proof -
    have "r = hd (take k t)"
      by (simp add: rrs)
    then show ?thesis
      using k(1) t_ne by (simp add: hd_take hd_conv_nth)
  qed
  finally have "sum_present (map cases_new (take k out))
                = cases_total (t ! (k - 1)) - cases_total (t ! 0)" .
  moreover have "cases_total (t ! 0) = cases (s ! 0)"
    using k(1) k_t len_t by (intro cases_t) auto
  moreover have "cases_total (t ! (k - 1)) = cases (s ! (k - 1))"
    using k(1) k_t len_t by (intro cases_t) auto
  ultimately have "sum_present (map cases_new (take k out)) = cases (s ! (k - 1)) - cases (s ! 0)"
    by simp
  then show ?thesis
    by (simp only: s_def out_def)
qed

lemma prefix_sum_deaths:
  assumes early: "\<forall>r \<in> set (state_group e csv). (2020, 1, 1) \<le> date r"
    and mono: "sorted (map deaths (state_group e (sort_values csv)))"
    and k: "0 < k" "k \<le> length (state_group e (daily_df csv))"
  shows "sum_present (map deaths_new (take k (state_group e (daily_df csv))))
         = deaths (state_group e (sort_values csv) ! (k - 1))
           - deaths (state_group e (sort_values csv) ! 0)"
proof -
  define csv' where "csv' = map swap_metrics csv"
  define s where "s = state_group e (sort_values csv)"
  have state_swap: "state (swap_metrics r) = state r" for r
    by (simp add: swap_metrics_def)
  have state_swap_daily: "state (swap_daily d) = state d" for d
    by (simp add: swap_daily_def)
  have s': "state_group e (sort_values csv') = map swap_metrics s"
    by (simp add: csv'_def s_def sort_values_swap state_group_map state_swap)
  have out': "state_group e (daily_df csv') = map swap_daily (state_group e (daily_df csv))"
    by (simp add: csv'_def daily_df_swap state_group_map state_swap_daily)
  have k_s: "k \<le> length s"
    using k(2) length_group_daily_df [of e csv] by (simp add: s_def)
  have "\<forall>r \<in> set (state_group e csv'). (2020, 1, 1) \<le> date r"
    using early by (auto simp: csv'_def state_group_map state_swap swap_metrics_def)
  moreover have "sorted (map cases (state_group e (sort_values csv')))"
    using mono by (simp add: s' s_def o_def swap_metrics_def)
  moreover have "k \<le> length (state_group e (daily_df csv'))"
    using k(2) by (simp add: out')
  ultimately have "sum_present (map cases_new (take k (state_group e (daily_df csv'))))
      = cases (state_group e (sort_values csv') ! (k - 1))
        - cases (state_group e (sort_values csv') ! 0)"
    using k(1) by (intro prefix_sum_cases) simp_all
  moreover have "map cases_new (take k (state_group e (daily_df csv')))
      = map deaths_new (take k (state_group e (daily_df csv)))"
    by (simp add: out' take_map o_def swap_daily_def)
  moreover have "k - 1 < length s" "0 < length s"
    using k(1) k_s by auto
  then have "cases (map swap_metrics s ! (k - 1)) = deaths (s ! (k - 1))"
    "cases (map swap_metrics s ! 0) = deaths (s ! 0)"
    by (simp_all add: swap_metrics_def)
  ultimately show ?thesis
    by (simp add: s' s_def)
qed

section \<open>The properties of the derivation\<close>

subsection \<open>First row of a state\<close>

text \<open>
  C1 (as the code has it). For every state \<open>e\<close>: if \<open>r\<close> is the first row of the
  date-sorted rows of \<open>e\<close> and its date lies in 2020, then the rows of \<open>e\<close> in
  \<open>daily_df\<close> start with the row of \<open>r\<close>, and both new counts of that row are missing
  (NaN); they are not the cumulative counts. A state with a single row, dated in 2020,
  yields exactly that one row (\<open>rest = []\<close> forces \<open>rest' = []\<close>).
\<close>

theorem first_increment_missing:
  assumes "state_group e (sort_values csv) = r # rest" and "in_2020 (date r)"
  shows "\<exists>rest'. state_group e (daily_df csv)
                  = \<lparr>state = e, date = date r, cases_total = cases r, deaths_total = deaths r,
                     cases_new = None, deaths_new = None\<rparr> # rest'
               \<and> length rest' \<le> length rest"
proof -
  have "r \<in> set (state_group e (sort_values csv))"
    by (simp add: assms(1))
  then have e: "state r = e"
    by (simp add: state_group_def)
  define rest' where "rest' = query (rows_from [e \<mapsto> cases r] [e \<mapsto> deaths r] (rename_columns rest))"
  have "length rest' \<le> length (rows_from [e \<mapsto> cases r] [e \<mapsto> deaths r] (rename_columns rest))"
    unfolding rest'_def query_def by (rule length_filter_le)
  then have "length rest' \<le> length rest"
    by (simp add: length_rows_from rename_columns_def)
  moreover have "state_group e (daily_df csv)
      = \<lparr>state = e, date = date r, cases_total = cases r, deaths_total = deaths r,
         cases_new = None, deaths_new = None\<rparr> # rest'"
    using e assms(2)
    by (simp add: group_daily_df_series assms(1) rename_columns_def query_def new_row_def
        since_def rest'_def)
  ultimately show ?thesis by blast
qed

text \<open>
  The theorem at the spec's second example: New York with the single observation 75.
\<close>

theorem first_increment_missing_witness:
  "state_group ''NY'' (sort_values [\<lparr>state = ''NY'', date = (2020, 3, 1), cases = 75, deaths = 2\<rparr>])
     = [\<lparr>state = ''NY'', date = (2020, 3, 1), cases = 75, deaths = 2\<rparr>]
   \<and> in_2020 (2020, 3, 1)
   \<and> state_group ''NY'' (daily_df [\<lparr>state = ''NY'', date = (2020, 3, 1), cases = 75, deaths = 2\<rparr>])
     = [\<lparr>state = ''NY'', date = (2020, 3, 1), cases_total = 75, deaths_total = 2,
         cases_new = None, deaths_new = None\<rparr>]"
proof -
  let ?r = "\<lparr>state = ''NY'', date = (2020, 3, 1), cases = 75, deaths = 2\<rparr>"
  have h1: "state_group ''NY'' (sort_values [?r]) = ?r # []"
    by (simp add: state_group_def sort_values_def)
  have h2: "in_2020 (date ?r)"
    by (simp add: in_2020_def)
  from first_increment_missing [OF h1 h2] h1 h2 show ?thesis
    by simp
qed

text \<open>
  C1 as the spec states it fails: for New York with the single observation 75, the new
  count of the first (and only) row is not its cumulative count 75.
\<close>

theorem first_increment_counterexample:
  "cases_new (hd (state_group ''NY''
      (daily_df [\<lparr>state = ''NY'', date = (2020, 3, 1), cases = 75, deaths = 2\<rparr>])))
   \<noteq> Some (cases_total (hd (state_group ''NY''
      (daily_df [\<lparr>state = ''NY'', date = (2020, 3, 1), cases = 75, deaths = 2\<rparr>]))))"
  by (simp add: daily_df_def query_def assign_new_def rename_columns_def sort_values_def
      groupby_diff_def clip_lower_def in_2020_def state_group_def)

subsection \<open>The worked example\<close>

text \<open>
  C2 as the spec states it fails: California with the cumulative cases 100, 150, 140, 200
  on four consecutive days does not yield the new cases 100, 50, 0, 60.
\<close>

theorem example_CA_counterexample:
  "map cases_new (daily_df
     [\<lparr>state = ''CA'', date = (2020, 3, 1), cases = 100, deaths = 1\<rparr>,
      \<lparr>state = ''CA'', date = (2020, 3, 2), cases = 150, deaths = 3\<rparr>,
      \<lparr>state = ''CA'', date = (2020, 3, 3), cases = 140, deaths = 2\<rparr>,
      \<lparr>state = ''CA'', date = (2020, 3, 4), cases = 200, deaths = 5\<rparr>])
   \<noteq> [Some 100, Some 50, Some 0, Some 60]"
  by (simp add: daily_df_def query_def assign_new_def rename_columns_def sort_values_def
      groupby_diff_def clip_lower_def in_2020_def)

text \<open>
  C2 (as the code has it). California with the cumulative cases 100, 150, 140, 200 on four
  consecutive days of 2020 yields the new cases NaN, 50, 0, 60, in date order.
\<close>

theorem example_CA:
  "map cases_new (daily_df
     [\<lparr>state = ''CA'', date = (2020, 3, 1), cases = 100, deaths = 1\<rparr>,
      \<lparr>state = ''CA'', date = (2020, 3, 2), cases = 150, deaths = 3\<rparr>,
      \<lparr>state = ''CA'', date = (2020, 3, 3), cases = 140, deaths = 2\<rparr>,
      \<lparr>state = ''CA'', date = (2020, 3, 4), cases = 200, deaths = 5\<rparr>])
   = [None, Some 50, Some 0, Some 60]"
  by (simp add: daily_df_def query_def assign_new_def rename_columns_def sort_values_def
      groupby_diff_def clip_lower_def in_2020_def)

subsection \<open>No negative count\<close>

text \<open>
  C3. For every input, every new count that \<open>daily_df\<close> produces, of cases and of
  deaths, is non-negative. (A cell without a value, the NaN of a state's first row,
  holds no count; see C1.) Duplicate dates need not be excluded for this.
\<close>

theorem increments_nonneg:
  "\<forall>d \<in> set (daily_df csv).
     (\<forall>n. cases_new d = Some n \<longrightarrow> 0 \<le> n) \<and> (\<forall>n. deaths_new d = Some n \<longrightarrow> 0 \<le> n)"
  using rows_from_nonneg by (auto simp: daily_df_def query_def assign_new_rows)

theorem increments_nonneg_witness:
  "\<lparr>state = ''CA'', date = (2020, 3, 2), cases_total = 150, deaths_total = 3,
      cases_new = Some 50, deaths_new = Some 2\<rparr>
     \<in> set (daily_df
          [\<lparr>state = ''CA'', date = (2020, 3, 1), cases = 100, deaths = 1\<rparr>,
           \<lparr>state = ''CA'', date = (2020, 3, 2), cases = 150, deaths = 3\<rparr>])
   \<and> (0::int) \<le> 50 \<and> (0::int) \<le> 2"
proof -
  let ?csv = "[\<lparr>state = ''CA'', date = (2020, 3, 1), cases = 100, deaths = 1\<rparr>,
               \<lparr>state = ''CA'', date = (2020, 3, 2), cases = 150, deaths = 3\<rparr>]"
  let ?d = "\<lparr>state = ''CA'', date = (2020, 3, 2), cases_total = 150, deaths_total = 3,
      cases_new = Some 50, deaths_new = Some (2::int)\<rparr>"
  have mem: "?d \<in> set (daily_df ?csv)"
    by (simp add: daily_df_def query_def assign_new_def rename_columns_def sort_values_def
        groupby_diff_def clip_lower_def in_2020_def)
  from increments_nonneg [of ?csv] mem
  have "(\<forall>n. cases_new ?d = Some n \<longrightarrow> 0 \<le> n) \<and> (\<forall>n. deaths_new ?d = Some n \<longrightarrow> 0 \<le> n)"
    by blast
  with mem show ?thesis by simp
qed

subsection \<open>A decrease becomes zero\<close>

text \<open>
  C4. Whenever \<open>a\<close> and \<open>b\<close> are consecutive rows of the date-sorted rows of a state
  \<open>e\<close> and \<open>b\<close> is dated in 2020 (so that its row is kept), \<open>daily_df\<close> holds the row
  of \<open>b\<close>, with its cumulative counts unchanged, and there a decrease of the cumulative
  cases gives the new cases exactly 0, and a decrease of the cumulative deaths gives the
  new deaths exactly 0. The pipeline is a total function: no input makes it fail, and
  a row has no column that could flag the correction.
\<close>

theorem decrease_clipped_to_zero:
  assumes "state_group e (sort_values csv) = pre @ a # b # post" and "in_2020 (date b)"
  shows "\<exists>d \<in> set (daily_df csv).
           state d = e \<and> date d = date b \<and> cases_total d = cases b \<and> deaths_total d = deaths b
         \<and> (cases b < cases a \<longrightarrow> cases_new d = Some 0)
         \<and> (deaths b < deaths a \<longrightarrow> deaths_new d = Some 0)"
proof -
  let ?ren = "\<lambda>r. \<lparr>state = state r, date = date r, cases_total = cases r, deaths_total = deaths r\<rparr>"
  define d where "d = new_row (?ren b) (Some (max 0 (cases b - cases a)))
                                       (Some (max 0 (deaths b - deaths a)))"
  have "a \<in> set (state_group e (sort_values csv))" "b \<in> set (state_group e (sort_values csv))"
    by (simp_all add: assms(1))
  then have e: "state a = e" "state b = e"
    by (simp_all add: state_group_def)
  have ren: "rename_columns (state_group e (sort_values csv))
             = rename_columns pre @ ?ren a # ?ren b # rename_columns post"
    by (simp add: assms(1) rename_columns_def)
  have "d \<in> set (rows_from Map.empty Map.empty (rename_columns (state_group e (sort_values csv))))"
    unfolding ren d_def
    using adjacent_rows_from [of "?ren a" "?ren b" Map.empty Map.empty "rename_columns pre"
        "rename_columns post"] e
    by simp
  moreover have "in_2020 (date d)"
    using assms(2) by (simp add: d_def new_row_def)
  ultimately have "d \<in> set (state_group e (daily_df csv))"
    by (simp add: group_daily_df_series query_def)
  then have "d \<in> set (daily_df csv)"
    by (simp add: state_group_def)
  moreover have "state d = e" "date d = date b" "cases_total d = cases b" "deaths_total d = deaths b"
    "cases b < cases a \<longrightarrow> cases_new d = Some 0" "deaths b < deaths a \<longrightarrow> deaths_new d = Some 0"
    using e by (simp_all add: d_def new_row_def)
  ultimately show ?thesis by blast
qed

text \<open>
  The theorem on two rows given in reverse date order: cases fall from 150 to 140 and
  deaths from 3 to 2.
\<close>

theorem decrease_clipped_to_zero_witness:
  "state_group ''CA'' (sort_values
      [\<lparr>state = ''CA'', date = (2020, 3, 3), cases = 140, deaths = 2\<rparr>,
       \<lparr>state = ''CA'', date = (2020, 3, 2), cases = 150, deaths = 3\<rparr>])
     = [] @ \<lparr>state = ''CA'', date = (2020, 3, 2), cases = 150, deaths = 3\<rparr>
          # \<lparr>state = ''CA'', date = (2020, 3, 3), cases = 140, deaths = 2\<rparr> # []
   \<and> in_2020 (2020, 3, 3)
   \<and> (\<exists>d \<in> set (daily_df
          [\<lparr>state = ''CA'', date = (2020, 3, 3), cases = 140, deaths = 2\<rparr>,
           \<lparr>state = ''CA'', date = (2020, 3, 2), cases = 150, deaths = 3\<rparr>]).
        state d = ''CA'' \<and> date d = (2020, 3, 3) \<and> cases_total d = 140 \<and> deaths_total d = 2
        \<and> cases_new d = Some 0 \<and> deaths_new d = Some 0)"
proof -
  let ?a = "\<lparr>state = ''CA'', date = (2020, 3, 2), cases = 150, deaths = 3\<rparr>"
  let ?b = "\<lparr>state = ''CA'', date = (2020, 3, 3), cases = 140, deaths = 2\<rparr>"
  have h1: "state_group ''CA'' (sort_values [?b, ?a]) = [] @ ?a # ?b # []"
    by (simp add: state_group_def sort_values_def)
  have h2: "in_2020 (date ?b)"
    by (simp add: in_2020_def)
  from decrease_clipped_to_zero [OF h1 h2] h1 h2 show ?thesis
    by simp
qed

subsection \<open>Prefix sums\<close>

text \<open>
  C5 as the spec states it fails: California with the cumulative cases 100 and 150, a
  non-decreasing sequence, has the new cases NaN and 50; their sum over both dates is 50
  and not the cumulative count 150 of the last date.
\<close>

theorem prefix_sum_counterexample:
  "sorted (map cases (state_group ''CA'' (sort_values
      [\<lparr>state = ''CA'', date = (2020, 3, 1), cases = 100, deaths = 1\<rparr>,
       \<lparr>state = ''CA'', date = (2020, 3, 2), cases = 150, deaths = 3\<rparr>])))
   \<and> sum_present (map cases_new (take 2 (state_group ''CA'' (daily_df
      [\<lparr>state = ''CA'', date = (2020, 3, 1), cases = 100, deaths = 1\<rparr>,
       \<lparr>state = ''CA'', date = (2020, 3, 2), cases = 150, deaths = 3\<rparr>]))))
     \<noteq> cases (state_group ''CA'' (sort_values
      [\<lparr>state = ''CA'', date = (2020, 3, 1), cases = 100, deaths = 1\<rparr>,
       \<lparr>state = ''CA'', date = (2020, 3, 2), cases = 150, deaths = 3\<rparr>]) ! 1) - 0"
  by (simp add: daily_df_def query_def assign_new_def rename_columns_def sort_values_def
      groupby_diff_def clip_lower_def in_2020_def state_group_def sum_present_def)

text \<open>
  C5 (as the code has it). Let no row of state \<open>e\<close> be dated before 2020-01-01, let
  the cumulative counts of \<open>e\<close> for a metric (cases, or deaths) lie between 0 and
  \<open>2 ^ 53\<close>, where the float subtraction of \<open>diff\<close> is exact, and let them be
  non-decreasing along the date-sorted rows of \<open>e\<close>. Then for every non-empty prefix of
  the rows of \<open>e\<close> in \<open>daily_df\<close>, the sum of the new counts present in the prefix
  equals the cumulative count at the last date of the prefix minus the cumulative count
  at the first date of the state (the first row contributes no new count of its own,
  see C1).
\<close>

theorem prefix_sum:
  assumes "\<forall>r \<in> set (state_group e csv). (2020, 1, 1) \<le> date r"
    and "0 < k" and "k \<le> length (state_group e (daily_df csv))"
  shows "((\<forall>r \<in> set (state_group e csv). float64_exact (cases r))
          \<and> sorted (map cases (state_group e (sort_values csv))) \<longrightarrow>
            sum_present (map cases_new (take k (state_group e (daily_df csv))))
            = cases (state_group e (sort_values csv) ! (k - 1))
              - cases (state_group e (sort_values csv) ! 0))
       \<and> ((\<forall>r \<in> set (state_group e csv). float64_exact (deaths r))
          \<and> sorted (map deaths (state_group e (sort_values csv))) \<longrightarrow>
            sum_present (map deaths_new (take k (state_group e (daily_df csv))))
            = deaths (state_group e (sort_values csv) ! (k - 1))
              - deaths (state_group e (sort_values csv) ! 0))"
proof (intro conjI impI)
  assume "(\<forall>r \<in> set (state_group e csv). float64_exact (cases r))
          \<and> sorted (map cases (state_group e (sort_values csv)))"
  then have "sorted (map cases (state_group e (sort_values csv)))" ..
  with assms(1) show "sum_present (map cases_new (take k (state_group e (daily_df csv))))
      = cases (state_group e (sort_values csv) ! (k - 1))
        - cases (state_group e (sort_values csv) ! 0)"
    using assms(2,3) by (rule prefix_sum_cases)
next
  assume "(\<forall>r \<in> set (state_group e csv). float64_exact (deaths r))
          \<and> sorted (map deaths (state_group e (sort_values csv)))"
  then have "sorted (map deaths (state_group e (sort_values csv)))" ..
  with assms(1) show "sum_present (map deaths_new (take k (state_group e (daily_df csv))))
      = deaths (state_group e (sort_values csv) ! (k - 1))
        - deaths (state_group e (sort_values csv) ! 0)"
    using assms(2,3) by (rule prefix_sum_deaths)
qed

text \<open>
  The theorem on three rows of California with counts far below \<open>2 ^ 53\<close>, the last
  row dated in 2021 and so dropped: the new cases of the two rows that are kept sum to
  150 - 100, their new deaths to 3 - 1.
\<close>

theorem prefix_sum_witness:
  "map (\<lambda>r. (2020, 1, 1) \<le> date r) (state_group ''CA''
      [\<lparr>state = ''CA'', date = (2021, 1, 5), cases = 170, deaths = 4\<rparr>,
       \<lparr>state = ''CA'', date = (2020, 3, 1), cases = 100, deaths = 1\<rparr>,
       \<lparr>state = ''CA'', date = (2020, 3, 2), cases = 150, deaths = 3\<rparr>])
     = [True, True, True]
   \<and> map (\<lambda>r. float64_exact (cases r) \<and> float64_exact (deaths r)) (state_group ''CA''
      [\<lparr>state = ''CA'', date = (2021, 1, 5), cases = 170, deaths = 4\<rparr>,
       \<lparr>state = ''CA'', date = (2020, 3, 1), cases = 100, deaths = 1\<rparr>,
       \<lparr>state = ''CA'', date = (2020, 3, 2), cases = 150, deaths = 3\<rparr>])
     = [True, True, True]
   \<and> sorted (map cases (state_group ''CA'' (sort_values
      [\<lparr>state = ''CA'', date = (2021, 1, 5), cases = 170, deaths = 4\<rparr>,
       \<lparr>state = ''CA'', date = (2020, 3, 1), cases = 100, deaths = 1\<rparr>,
       \<lparr>state = ''CA'', date = (2020, 3, 2), cases = 150, deaths = 3\<rparr>])))
   \<and> sorted (map deaths (state_group ''CA'' (sort_values
      [\<lparr>state = ''CA'', date = (2021, 1, 5), cases = 170, deaths = 4\<rparr>,
       \<lparr>state = ''CA'', date = (2020, 3, 1), cases = 100, deaths = 1\<rparr>,
       \<lparr>state = ''CA'', date = (2020, 3, 2), cases = 150, deaths = 3\<rparr>])))
   \<and> (2::nat) \<le> length (state_group ''CA'' (daily_df
      [\<lparr>state = ''CA'', date = (2021, 1, 5), cases = 170, deaths = 4\<rparr>,
       \<lparr>state = ''CA'', date = (2020, 3, 1), cases = 100, deaths = 1\<rparr>,
       \<lparr>state = ''CA'', date = (2020, 3, 2), cases = 150, deaths = 3\<rparr>]))
   \<and> sum_present (map cases_new (take 2 (state_group ''CA'' (daily_df
      [\<lparr>state = ''CA'', date = (2021, 1, 5), cases = 170, deaths = 4\<rparr>,
       \<lparr>state = ''CA'', date = (2020, 3, 1), cases = 100, deaths = 1\<rparr>,
       \<lparr>state = ''CA'', date = (2020, 3, 2), cases = 150, deaths = 3\<rparr>])))) = 150 - 100
   \<and> sum_present (map deaths_new (take 2 (state_group ''CA'' (daily_df
      [\<lparr>state = ''CA'', date = (2021, 1, 5), cases = 170, deaths = 4\<rparr>,
       \<lparr>state = ''CA'', date = (2020, 3, 1), cases = 100, deaths = 1\<rparr>,
       \<lparr>state = ''CA'', date = (2020, 3, 2), cases = 150, deaths = 3\<rparr>])))) = 3 - 1"
proof -
  let ?csv = "[\<lparr>state = ''CA'', date = (2021, 1, 5), cases = 170, deaths = 4\<rparr>,
               \<lparr>state = ''CA'', date = (2020, 3, 1), cases = 100, deaths = 1\<rparr>,
               \<lparr>state = ''CA'', date = (2020, 3, 2), cases = 150, deaths = 3\<rparr>]"
  have h1: "\<forall>r \<in> set (state_group ''CA'' ?csv). (2020, 1, 1) \<le> date r"
    by (simp add: state_group_def)
  have h2: "0 < (2::nat)"
    by simp
  have h3: "(2::nat) \<le> length (state_group ''CA'' (daily_df ?csv))"
    by (simp add: daily_df_def query_def assign_new_def rename_columns_def sort_values_def
        groupby_diff_def clip_lower_def in_2020_def state_group_def)
  have b1: "\<forall>r \<in> set (state_group ''CA'' ?csv). float64_exact (cases r)"
    and b2: "\<forall>r \<in> set (state_group ''CA'' ?csv). float64_exact (deaths r)"
    by (simp_all add: state_group_def float64_exact_def)
  have m1: "sorted (map cases (state_group ''CA'' (sort_values ?csv)))"
    and m2: "sorted (map deaths (state_group ''CA'' (sort_values ?csv)))"
    by (simp_all add: state_group_def sort_values_def)
  note sums = prefix_sum [OF h1 h2 h3]
  have c: "sum_present (map cases_new (take 2 (state_group ''CA'' (daily_df ?csv))))
           = cases (state_group ''CA'' (sort_values ?csv) ! (2 - 1))
             - cases (state_group ''CA'' (sort_values ?csv) ! 0)"
    using sums [THEN conjunct1] b1 m1 by (simp only: simp_thms)
  have d: "sum_present (map deaths_new (take 2 (state_group ''CA'' (daily_df ?csv))))
           = deaths (state_group ''CA'' (sort_values ?csv) ! (2 - 1))
             - deaths (state_group ''CA'' (sort_values ?csv) ! 0)"
    using sums [THEN conjunct2] b2 m2 by (simp only: simp_thms)
  have s: "state_group ''CA'' (sort_values ?csv)
      = [\<lparr>state = ''CA'', date = (2020, 3, 1), cases = 100, deaths = 1\<rparr>,
         \<lparr>state = ''CA'', date = (2020, 3, 2), cases = 150, deaths = 3\<rparr>,
         \<lparr>state = ''CA'', date = (2021, 1, 5), cases = 170, deaths = 4\<rparr>]"
    by (simp add: state_group_def sort_values_def)
  have c': "sum_present (map cases_new (take 2 (state_group ''CA'' (daily_df ?csv)))) = 150 - 100"
    unfolding c s by simp
  have d': "sum_present (map deaths_new (take 2 (state_group ''CA'' (daily_df ?csv)))) = 3 - 1"
    unfolding d s by simp
  have g1: "map (\<lambda>r. (2020, 1, 1) \<le> date r) (state_group ''CA'' ?csv) = [True, True, True]"
    by (simp add: state_group_def)
  have g2: "map (\<lambda>r. float64_exact (cases r) \<and> float64_exact (deaths r)) (state_group ''CA'' ?csv)
            = [True, True, True]"
    by (simp add: state_group_def float64_exact_def)
  from g1 g2 m1 m2 h3 c' d' show ?thesis
    by (intro conjI)
qed

subsection \<open>Number of rows\<close>

text \<open>
  C6 as the spec states it fails: a row dated outside 2020 is dropped, so the output can
  have fewer rows than the input.
\<close>

theorem row_count_counterexample:
  "length (daily_df [\<lparr>state = ''NY'', date = (2021, 1, 1), cases = 75, deaths = 2\<rparr>])
   \<noteq> length [\<lparr>state = ''NY'', date = (2021, 1, 1), cases = 75, deaths = 2\<rparr>]"
  by (simp add: daily_df_def query_def assign_new_def rename_columns_def sort_values_def
      groupby_diff_def clip_lower_def in_2020_def)

text \<open>
  C6 (as the code has it). For every input, \<open>daily_df\<close> has exactly one row per input row
  whose date lies in 2020: as many rows as the input has rows dated from 2020-01-01 to
  2020-12-31. Rows dated outside 2020 are dropped; no row is added.
\<close>

theorem row_count:
  "length (daily_df csv) = length (filter (\<lambda>r. in_2020 (date r)) csv)"
proof -
  have "length (daily_df csv) = length (filter (\<lambda>r. in_2020 (date r)) (sort_values csv))"
    using arg_cong [OF originals_daily_df [of csv], of length] by simp
  also have "\<dots> = size (filter_mset (\<lambda>r. in_2020 (date r)) (mset (sort_values csv)))"
    by (metis mset_filter size_mset)
  also have "\<dots> = size (filter_mset (\<lambda>r. in_2020 (date r)) (mset csv))"
    by (simp add: sort_values_def)
  also have "\<dots> = length (filter (\<lambda>r. in_2020 (date r)) csv)"
    by (metis mset_filter size_mset)
  finally show ?thesis .
qed

subsection \<open>Independence of row order and of other states\<close>

text \<open>
  C7. Let no two rows of state \<open>e\<close> in the input share a date (the invariant of a
  Series). Then the rows of \<open>e\<close> in \<open>daily_df\<close>, and so their sequence of dates and new
  counts, are the same for every input whose rows of \<open>e\<close> are these rows in any order,
  whatever rows of other states it holds: in particular for every permutation of the
  input, and for the input with rows of other states added or removed.
\<close>

theorem entity_order_independent:
  assumes "distinct (map (\<lambda>r. (state r, date r)) (state_group e csv))"
    and "mset (state_group e csv') = mset (state_group e csv)"
  shows "state_group e (daily_df csv') = state_group e (daily_df csv)"
proof -
  have "sort_values (state_group e csv') = sort_values (state_group e csv)"
    using assms by (rule sort_values_perm)
  then have "daily_df (state_group e csv') = daily_df (state_group e csv)"
    by (simp add: daily_df_def)
  then show ?thesis
    by (simp only: group_daily_df)
qed

text \<open>
  The theorem on two files: the rows of California in reverse date order, and the same
  rows in date order after a row of Alabama.
\<close>

theorem entity_order_independent_witness:
  "distinct (map (\<lambda>r. (state r, date r)) (state_group ''CA''
      [\<lparr>state = ''AL'', date = (2020, 3, 2), cases = 7, deaths = 0\<rparr>,
       \<lparr>state = ''CA'', date = (2020, 3, 1), cases = 100, deaths = 1\<rparr>,
       \<lparr>state = ''CA'', date = (2020, 3, 2), cases = 150, deaths = 3\<rparr>]))
   \<and> mset (state_group ''CA''
      [\<lparr>state = ''CA'', date = (2020, 3, 2), cases = 150, deaths = 3\<rparr>,
       \<lparr>state = ''CA'', date = (2020, 3, 1), cases = 100, deaths = 1\<rparr>])
     = mset (state_group ''CA''
      [\<lparr>state = ''AL'', date = (2020, 3, 2), cases = 7, deaths = 0\<rparr>,
       \<lparr>state = ''CA'', date = (2020, 3, 1), cases = 100, deaths = 1\<rparr>,
       \<lparr>state = ''CA'', date = (2020, 3, 2), cases = 150, deaths = 3\<rparr>])
   \<and> state_group ''CA'' (daily_df
      [\<lparr>state = ''CA'', date = (2020, 3, 2), cases = 150, deaths = 3\<rparr>,
       \<lparr>state = ''CA'', date = (2020, 3, 1), cases = 100, deaths = 1\<rparr>])
     = state_group ''CA'' (daily_df
      [\<lparr>state = ''AL'', date = (2020, 3, 2), cases = 7, deaths = 0\<rparr>,
       \<lparr>state = ''CA'', date = (2020, 3, 1), cases = 100, deaths = 1\<rparr>,
       \<lparr>state = ''CA'', date = (2020, 3, 2), cases = 150, deaths = 3\<rparr>])"
proof -
  let ?al = "\<lparr>state = ''AL'', date = (2020, 3, 2), cases = 7, deaths = 0\<rparr>"
  let ?c1 = "\<lparr>state = ''CA'', date = (2020, 3, 1), cases = 100, deaths = 1\<rparr>"
  let ?c2 = "\<lparr>state = ''CA'', date = (2020, 3, 2), cases = 150, deaths = 3\<rparr>"
  have h1: "distinct (map (\<lambda>r. (state r, date r)) (state_group ''CA'' [?al, ?c1, ?c2]))"
    by (simp add: state_group_def)
  have h2: "mset (state_group ''CA'' [?c2, ?c1]) = mset (state_group ''CA'' [?al, ?c1, ?c2])"
    by (simp add: state_group_def)
  from entity_order_independent [OF h1 h2] h1 h2 show ?thesis
    by (simp only: simp_thms)
qed

subsection \<open>The two metrics\<close>

text \<open>
  C8. For two inputs that agree row by row on state and date: if they also agree on the
  cumulative cases, their columns of new cases are equal, whatever their deaths are; and
  if they agree on the cumulative deaths, their columns of new deaths are equal,
  whatever their cases are. Both metrics get the same treatment: exchanging the cases
  and deaths columns of the input exchanges the cases and deaths columns of the output,
  cumulative and new, and changes nothing else.
\<close>

theorem metrics_independent:
  assumes "map state csv' = map state csv" and "map date csv' = map date csv"
  shows "(map cases csv' = map cases csv \<longrightarrow>
            map cases_new (daily_df csv') = map cases_new (daily_df csv))
       \<and> (map deaths csv' = map deaths csv \<longrightarrow>
            map deaths_new (daily_df csv') = map deaths_new (daily_df csv))
       \<and> daily_df (map swap_metrics csv) = map swap_daily (daily_df csv)"
proof (intro conjI impI)
  show "daily_df (map swap_metrics csv) = map swap_daily (daily_df csv)"
    by (rule daily_df_swap)
next
  have keys: "map (\<lambda>r. (state r, date r)) csv' = map (\<lambda>r. (state r, date r)) csv"
    using assms by (rule map_pair_eq)
  show "map cases_new (daily_df csv') = map cases_new (daily_df csv)"
    if "map cases csv' = map cases csv"
    using keys that by (rule cases_new_only)
  show "map deaths_new (daily_df csv') = map deaths_new (daily_df csv)"
    if "map deaths csv' = map deaths csv"
    using keys that by (rule deaths_new_only)
qed

text \<open>
  The theorem used twice on a file of two rows: once with other deaths, once with other
  cases.
\<close>

theorem metrics_independent_witness:
  "map cases_new (daily_df
      [\<lparr>state = ''CA'', date = (2020, 3, 1), cases = 100, deaths = 9\<rparr>,
       \<lparr>state = ''CA'', date = (2020, 3, 2), cases = 150, deaths = 4\<rparr>])
   = map cases_new (daily_df
      [\<lparr>state = ''CA'', date = (2020, 3, 1), cases = 100, deaths = 1\<rparr>,
       \<lparr>state = ''CA'', date = (2020, 3, 2), cases = 150, deaths = 3\<rparr>])
   \<and> map deaths_new (daily_df
      [\<lparr>state = ''CA'', date = (2020, 3, 1), cases = 180, deaths = 1\<rparr>,
       \<lparr>state = ''CA'', date = (2020, 3, 2), cases = 120, deaths = 3\<rparr>])
   = map deaths_new (daily_df
      [\<lparr>state = ''CA'', date = (2020, 3, 1), cases = 100, deaths = 1\<rparr>,
       \<lparr>state = ''CA'', date = (2020, 3, 2), cases = 150, deaths = 3\<rparr>])"
proof -
  let ?csv = "[\<lparr>state = ''CA'', date = (2020, 3, 1), cases = 100, deaths = 1\<rparr>,
               \<lparr>state = ''CA'', date = (2020, 3, 2), cases = 150, deaths = 3\<rparr>]"
  let ?other_deaths = "[\<lparr>state = ''CA'', date = (2020, 3, 1), cases = 100, deaths = 9\<rparr>,
                        \<lparr>state = ''CA'', date = (2020, 3, 2), cases = 150, deaths = 4\<rparr>]"
  let ?other_cases = "[\<lparr>state = ''CA'', date = (2020, 3, 1), cases = 180, deaths = 1\<rparr>,
                       \<lparr>state = ''CA'', date = (2020, 3, 2), cases = 120, deaths = 3\<rparr>]"
  have d1: "map state ?other_deaths = map state ?csv" and d2: "map date ?other_deaths = map date ?csv"
    and d3: "map cases ?other_deaths = map cases ?csv"
    by simp_all
  have c1: "map state ?other_cases = map state ?csv" and c2: "map date ?other_cases = map date ?csv"
    and c3: "map deaths ?other_cases = map deaths ?csv"
    by simp_all
  from metrics_independent [OF d1 d2] d3 metrics_independent [OF c1 c2] c3 show ?thesis
    by (simp only: simp_thms)
qed

subsection \<open>The original columns\<close>

text \<open>
  C9. \<open>daily_df\<close> is a function of the file's rows and changes nothing else. Every row
  of its output carries the state, the date and the two cumulative counts of an input
  row unchanged (the counts under their new names): read back under the old column
  names, the output is the input sorted by state and date, without the rows dated
  outside 2020. The new counts stand beside these columns.
\<close>

theorem cumulative_columns_kept:
  "map (\<lambda>d. \<lparr>state = state d, date = date d, cases = cases_total d, deaths = deaths_total d\<rparr>)
       (daily_df csv)
   = filter (\<lambda>r. in_2020 (date r)) (sort_values csv)
   \<and> mset (filter (\<lambda>r. in_2020 (date r)) (sort_values csv))
     = filter_mset (\<lambda>r. in_2020 (date r)) (mset csv)"
  by (simp add: originals_daily_df sort_values_def)

subsection \<open>Order of the output\<close>

text \<open>
  C10. For every input, the rows of \<open>daily_df\<close> are in ascending order of
  (state, date), compared lexicographically: ascending in the state, so that the rows
  of one state are contiguous, and ascending in the date within a state.
\<close>

theorem output_sorted:
  "sorted (map (\<lambda>r. (state r, date r)) (daily_df csv))"
proof -
  have "sorted (map (\<lambda>r. (state r, date r)) (rename_columns (sort_values csv)))"
    using sorted_sort_key [of "\<lambda>r. (state r, date r)" csv]
    by (simp add: rename_columns_def sort_values_def o_def)
  then have "sorted (map (\<lambda>r. (state r, date r)) (assign_new (rename_columns (sort_values csv))))"
    by (simp add: assign_new_rows map_key_rows_from)
  then show ?thesis
    unfolding daily_df_def query_def by (rule sorted_filter)
qed

end
